theory Spec2Isabelle
  imports Complex_Main "HOL-Library.Word"
begin

section \<open>The trade surveillance engine of DharmaGuard\<close>

text \<open>
  A shallow embedding of \<^verbatim>\<open>core-engine/include/surveillance/trade_pattern_detector.hpp\<close>
  and \<^verbatim>\<open>core-engine/src/surveillance/trade_pattern_detector.cpp\<close>: the trade record and
  its validation, the submit path (\<^verbatim>\<open>process_trade\<close>), the per-key context update and
  detector fan-out (\<^verbatim>\<open>process_trade_internal\<close>), the worker loop with its counters, the
  statistics snapshot and the two registry operations.

  Conventions of the model.
  \<^item> \<^verbatim>\<open>uint64_t\<close> counters are \<open>64 word\<close>: \<^verbatim>\<open>fetch_add\<close> wraps, comparisons are unsigned.
  \<^item> A \<^verbatim>\<open>system_clock::time_point\<close> is its signed 64-bit count of ticks (nanoseconds, as
    in libstdc++), a \<open>64 word\<close> compared with \<open><s\<close> and \<open>\<le>s\<close>; \<^verbatim>\<open>std::chrono::minutes\<close>
    is a signed 64-bit count of minutes. The conversion of minutes to ticks and the
    subtraction of a duration from a time point are done on 64 bits and wrap around in
    two's complement; C++ leaves the overflow undefined, and wrapping is what the compiled
    code does. The two readings of the clock that \<^verbatim>\<open>get_statistics\<close> subtracts are kept
    as \<open>int\<close>.
  \<^item> A \<^verbatim>\<open>double\<close> is a finite real, an infinity or NaN; the code only compares doubles
    with zero, and these comparisons follow IEEE 754 (every comparison with NaN is false).
  \<^item> The engine is run sequentially: one worker, and the detector fan-out of
    \<^verbatim>\<open>tbb::parallel_for\<close> in registry order. Only the compare-and-swap loop on the peak
    counter is given an explicit schedule of interference by other workers.
  \<^item> \<^verbatim>\<open>spdlog\<close> output is a list of (level, message) pairs carried in the engine state.
    It keeps the warnings and the errors; info and debug lines are not recorded.
\<close>

subsection \<open>Data model\<close>

datatype double = DFinite real | DPosInf | DNegInf | DNaN

text \<open>\<^verbatim>\<open>x > 0.0\<close> and \<^verbatim>\<open>x <= 0.0\<close> on doubles.\<close>

fun double_gt_zero :: "double \<Rightarrow> bool" where
  "double_gt_zero (DFinite r) = (0 < r)"
| "double_gt_zero DPosInf = True"
| "double_gt_zero DNegInf = False"
| "double_gt_zero DNaN = False"

fun double_le_zero :: "double \<Rightarrow> bool" where
  "double_le_zero (DFinite r) = (r \<le> 0)"
| "double_le_zero DPosInf = False"
| "double_le_zero DNegInf = True"
| "double_le_zero DNaN = False"

datatype TradeType = BUY | SELL | SHORT_SELL | COVER

datatype MarketSegment = EQUITY | FUTURES | OPTIONS | COMMODITY | CURRENCY

text \<open>\<^verbatim>\<open>struct TradeData\<close>. The field \<^verbatim>\<open>value\<close> is named \<open>trade_value\<close> here.\<close>

record TradeData =
  trade_id :: string
  instrument_symbol :: string
  account_id :: string
  client_id :: string
  trade_type :: TradeType
  segment :: MarketSegment
  quantity :: "64 word"
  price :: double
  trade_value :: double
  exchange :: string
  timestamp :: "64 word"
  order_id :: string
  trader_id :: string
  is_own_account :: bool
  brokerage :: double
  taxes :: double
  instrument_id_hash :: "32 word"
  account_id_hash :: "32 word"
  client_id_hash :: "32 word"

text \<open>\<^verbatim>\<open>TradeData::is_valid\<close>.\<close>

definition is_valid :: "TradeData \<Rightarrow> bool" where
  "is_valid t \<longleftrightarrow>
     trade_id t \<noteq> [] \<and>
     instrument_symbol t \<noteq> [] \<and>
     0 < quantity t \<and>
     double_gt_zero (price t) \<and>
     double_gt_zero (trade_value t)"

text \<open>\<^verbatim>\<open>struct HistoricalContext\<close>; \<open>lookback_window\<close> counts minutes.\<close>

record HistoricalContext =
  lookback_window :: "64 word"
  recent_trades :: "TradeData list"
  avg_volume :: double
  avg_price :: double
  price_volatility :: double
  bid_price :: double
  ask_price :: double
  bid_quantity :: "64 word"
  ask_quantity :: "64 word"
  account_recent_trades :: "TradeData list"
  account_total_volume :: double
  related_accounts :: "string list"
  related_instruments :: "string list"

text \<open>A default-constructed \<^verbatim>\<open>HistoricalContext\<close> (the member initialisers of the struct).\<close>

definition default_context :: HistoricalContext where
  "default_context =
     \<lparr> lookback_window = 5, recent_trades = [],
       avg_volume = DFinite 0, avg_price = DFinite 0, price_volatility = DFinite 0,
       bid_price = DFinite 0, ask_price = DFinite 0, bid_quantity = 0, ask_quantity = 0,
       account_recent_trades = [], account_total_volume = DFinite 0,
       related_accounts = [], related_instruments = [] \<rparr>"

text \<open>\<^verbatim>\<open>struct ProcessingStats\<close>; the two per-pattern maps are association lists.\<close>

record ProcessingStats =
  total_trades_processed :: "64 word"
  total_alerts_generated :: "64 word"
  queue_size :: "64 word"
  avg_processing_time_ns :: "64 word"
  peak_processing_time_ns :: "64 word"
  throughput_trades_per_second :: double
  cpu_utilization_percent :: double
  memory_usage_bytes :: "64 word"
  last_updated :: int
  pattern_alerts_count :: "(string \<times> 64 word) list"
  pattern_processing_time_ns :: "(string \<times> 64 word) list"

definition default_stats :: ProcessingStats where
  "default_stats =
     \<lparr> total_trades_processed = 0, total_alerts_generated = 0, queue_size = 0,
       avg_processing_time_ns = 0, peak_processing_time_ns = 0,
       throughput_trades_per_second = DFinite 0, cpu_utilization_percent = DFinite 0,
       memory_usage_bytes = 0, last_updated = 0,
       pattern_alerts_count = [], pattern_processing_time_ns = [] \<rparr>"

text \<open>
  Modelled from the spec: \<^verbatim>\<open>surveillance_alert.hpp\<close> is not among the sources. An alert
  carries the fields the spec lists for it; the engine reads only \<open>title\<close>.
\<close>

record SurveillanceAlert =
  alert_type :: string
  title :: string
  description :: string
  pattern_name :: string
  alert_trade_id :: string

text \<open>
  The result of one \<^verbatim>\<open>detect_pattern\<close> call: an empty optional, an alert, or a
  \<^verbatim>\<open>std::exception\<close> with its \<^verbatim>\<open>what()\<close> text.
\<close>

datatype detect_outcome = NoAlert | Alert SurveillanceAlert | Throws string

text \<open>
  Modelled from the spec: the implementations of \<^verbatim>\<open>IPatternDetector\<close> are not among the
  sources. A detector is the spec's DetectorEntry: an enabled flag read by
  \<^verbatim>\<open>is_enabled\<close> and written by \<^verbatim>\<open>set_enabled\<close>, a configuration installed by
  \<^verbatim>\<open>update_config\<close>, and its detection function. The type of configurations
  (\<^verbatim>\<open>PatternConfig\<close>, from the absent \<^verbatim>\<open>pattern_config.hpp\<close>) is the parameter \<open>'cfg\<close>.
  Each detector object is taken to be registered under one name, as
  \<^verbatim>\<open>initialize_builtin_detectors\<close> does.
\<close>

record 'cfg IPatternDetector =
  det_enabled :: bool
  det_config :: 'cfg
  det_detect :: "'cfg \<Rightarrow> TradeData \<Rightarrow> HistoricalContext \<Rightarrow> detect_outcome"

definition is_enabled :: "'cfg IPatternDetector \<Rightarrow> bool" where
  "is_enabled d = det_enabled d"

definition set_enabled :: "bool \<Rightarrow> 'cfg IPatternDetector \<Rightarrow> 'cfg IPatternDetector" where
  "set_enabled b d = d\<lparr>det_enabled := b\<rparr>"

definition update_config :: "'cfg \<Rightarrow> 'cfg IPatternDetector \<Rightarrow> 'cfg IPatternDetector" where
  "update_config c d = d\<lparr>det_config := c\<rparr>"

definition detect_pattern ::
  "'cfg IPatternDetector \<Rightarrow> TradeData \<Rightarrow> HistoricalContext \<Rightarrow> detect_outcome" where
  "detect_pattern d t ctx = det_detect d (det_config d) t ctx"

text \<open>
  Modelled from the spec: \<^verbatim>\<open>class MemoryPool\<close> is only declared. It is a slab of trade
  slots, addressed by \<open>nat\<close>, with a free list: \<^verbatim>\<open>allocate\<close> returns a free slot or null,
  \<^verbatim>\<open>deallocate\<close> gives a slot back.
\<close>

record MemoryPool =
  pool_free :: "nat list"
  pool_slots :: "nat \<Rightarrow> TradeData"

definition allocate :: "MemoryPool \<Rightarrow> (nat \<times> MemoryPool) option" where
  "allocate p = (case pool_free p of
                   [] \<Rightarrow> None
                 | a # rest \<Rightarrow> Some (a, p\<lparr>pool_free := rest\<rparr>))"

definition deallocate :: "nat \<Rightarrow> MemoryPool \<Rightarrow> MemoryPool" where
  "deallocate a p = p\<lparr>pool_free := a # pool_free p\<rparr>"

text \<open>
  Modelled from the spec: the ingress queue (a Boost lock-free queue in the source) is a
  bounded FIFO of slot handles; \<^verbatim>\<open>push\<close> fails when it is full, \<^verbatim>\<open>pop\<close> when it is empty.
\<close>

record TradeQueue =
  q_items :: "nat list"
  q_capacity :: nat

definition queue_push :: "nat \<Rightarrow> TradeQueue \<Rightarrow> TradeQueue option" where
  "queue_push a q = (if length (q_items q) < q_capacity q
                     then Some (q\<lparr>q_items := q_items q @ [a]\<rparr>) else None)"

definition queue_pop :: "TradeQueue \<Rightarrow> (nat \<times> TradeQueue) option" where
  "queue_pop q = (case q_items q of
                    [] \<Rightarrow> None
                  | a # rest \<Rightarrow> Some (a, q\<lparr>q_items := rest\<rparr>))"

datatype log_level = LWarn | LError

type_synonym log_entry = "log_level \<times> string"

text \<open>
  The state of a \<^verbatim>\<open>TradePatternDetector\<close> with its \<^verbatim>\<open>TradeProcessorImpl\<close>. The worker
  names \<^verbatim>\<open>peak_processing_time_ns_\<close>; the field is \<open>peak_counter\<close> here, apart from the
  statistics field of the same name. The implementation class repeats the atomics of the
  outer class; the worker and \<^verbatim>\<open>get_statistics\<close> use the outer ones, and the copies, which
  are only ever reset to zero, are left out. The registry \<open>detectors\<close> is an association
  list with one entry per name.
\<close>

record 'cfg engine =
  running :: bool
  shutdown_requested :: bool
  memory_pool :: MemoryPool
  trade_queue :: TradeQueue
  context_cache :: "string \<rightharpoonup> HistoricalContext"
  detectors :: "(string \<times> 'cfg IPatternDetector) list"
  statistics :: ProcessingStats
  alert_queue :: "SurveillanceAlert list"
  last_stats_update :: int
  trades_processed :: "64 word"
  alerts_generated :: "64 word"
  processing_time_ns :: "64 word"
  peak_counter :: "64 word"
  spdlog :: "log_entry list"

definition log_msg :: "log_level \<Rightarrow> string \<Rightarrow> 'cfg engine \<Rightarrow> 'cfg engine" where
  "log_msg lvl msg s = s\<lparr>spdlog := spdlog s @ [(lvl, msg)]\<rparr>"

text \<open>
  Every numeric counter the engine updates: the four atomics and the statistics record.
  Neither class declares a counter of errors or of drops.
\<close>

definition engine_counters ::
  "'cfg engine \<Rightarrow> 64 word \<times> 64 word \<times> 64 word \<times> 64 word \<times> ProcessingStats" where
  "engine_counters s =
     (trades_processed s, alerts_generated s, processing_time_ns s, peak_counter s,
      statistics s)"

subsection \<open>Validation and submit\<close>

text \<open>
  \<^verbatim>\<open>validate_trade_data\<close>, with \<^verbatim>\<open>system_clock::now()\<close> as the argument \<open>now\<close>; the result
  is the verdict and the warnings logged on the way.
\<close>

definition validate_trade_data :: "64 word \<Rightarrow> TradeData \<Rightarrow> bool \<times> log_entry list" where
  "validate_trade_data now t =
     (if \<not> is_valid t then (False, [])
      else if now <s timestamp t then
        (False, [(LWarn, ''Trade timestamp is in the future: '' @ trade_id t)])
      else if double_le_zero (price t) \<or> quantity t = 0 then
        (False, [(LWarn, ''Invalid price or quantity: '' @ trade_id t)])
      else (True, []))"

text \<open>\<^verbatim>\<open>process_trade\<close>: the verdict and the engine afterwards.\<close>

definition process_trade :: "64 word \<Rightarrow> TradeData \<Rightarrow> 'cfg engine \<Rightarrow> bool \<times> 'cfg engine" where
  "process_trade now t s =
     (if \<not> running s then (False, s)
      else
        let (ok, msgs) = validate_trade_data now t;
            s1 = s\<lparr>spdlog := spdlog s @ msgs\<rparr>
        in if \<not> ok then
             (False, log_msg LWarn (''Invalid trade data received: '' @ trade_id t) s1)
           else
             (case allocate (memory_pool s1) of
                None \<Rightarrow>
                  (False, log_msg LError (''Memory pool exhausted, dropping trade: '' @ trade_id t) s1)
              | Some (slot, pool') \<Rightarrow>
                  let pool'' = pool'\<lparr>pool_slots := (pool_slots pool')(slot := t)\<rparr>;
                      s2 = s1\<lparr>memory_pool := pool''\<rparr>
                  in (case queue_push slot (trade_queue s2) of
                        None \<Rightarrow>
                          (False,
                           log_msg LWarn (''Trade queue full, dropping trade: '' @ trade_id t)
                             (s2\<lparr>memory_pool := deallocate slot (memory_pool s2)\<rparr>))
                      | Some q' \<Rightarrow> (True, s2\<lparr>trade_queue := q'\<rparr>))))"

text \<open>The validity predicate of the specification, written from its words.\<close>

definition spec_is_valid :: "64 word \<Rightarrow> TradeData \<Rightarrow> bool" where
  "spec_is_valid now t \<longleftrightarrow>
     trade_id t \<noteq> [] \<and> instrument_symbol t \<noteq> [] \<and> 0 < quantity t \<and>
     double_gt_zero (price t) \<and> double_gt_zero (trade_value t) \<and> timestamp t \<le>s now"

subsection \<open>Context update and detector fan-out\<close>

text \<open>The cache key of \<^verbatim>\<open>process_trade_internal\<close>: instrument, an underscore, account.\<close>

definition context_key :: "TradeData \<Rightarrow> string" where
  "context_key t = instrument_symbol t @ ''_'' @ account_id t"

text \<open>
  The conversion of \<^verbatim>\<open>std::chrono::minutes\<close> to clock ticks (nanoseconds), a 64-bit
  multiplication.
\<close>

definition minutes_to_ticks :: "64 word \<Rightarrow> 64 word" where
  "minutes_to_ticks m = m * 60000000000"

text \<open>
  The first half of \<^verbatim>\<open>process_trade_internal\<close>. \<open>find_context\<close> is the local
  \<^verbatim>\<open>context\<close> after the cache lookup: the cached entry, or a default-constructed one.
  \<open>update_context\<close> is that variable after the \<^verbatim>\<open>push_back\<close> and the
  \<^verbatim>\<open>remove_if\<close>/\<^verbatim>\<open>erase\<close>; this value is stored in the cache and handed to every
  detector.
\<close>

definition find_context :: "(string \<rightharpoonup> HistoricalContext) \<Rightarrow> string \<Rightarrow> HistoricalContext" where
  "find_context cache key = (case cache key of
                               Some c \<Rightarrow> c
                             | None \<Rightarrow> default_context)"

definition update_context :: "(string \<rightharpoonup> HistoricalContext) \<Rightarrow> TradeData \<Rightarrow> HistoricalContext" where
  "update_context cache t =
     (let context0 = find_context cache (context_key t);
          context1 = context0\<lparr>recent_trades := recent_trades context0 @ [t]\<rparr>;
          cutoff_time = timestamp t - minutes_to_ticks (lookback_window context1)
      in context1\<lparr>recent_trades :=
                    filter (\<lambda>x. \<not> timestamp x <s cutoff_time) (recent_trades context1)\<rparr>)"

text \<open>
  The body of the fan-out loop for one enabled detector: an alert is queued and counted,
  an empty optional changes nothing, a \<^verbatim>\<open>std::exception\<close> is caught and logged.
\<close>

definition run_detector ::
  "TradeData \<Rightarrow> HistoricalContext \<Rightarrow> 'cfg engine \<Rightarrow> string \<times> 'cfg IPatternDetector \<Rightarrow> 'cfg engine" where
  "run_detector t ctx s nd =
     (case detect_pattern (snd nd) t ctx of
        Alert a \<Rightarrow> s\<lparr>alert_queue := alert_queue s @ [a],
                      alerts_generated := alerts_generated s + 1\<rparr>
      | NoAlert \<Rightarrow> s
      | Throws what \<Rightarrow>
          log_msg LError (''Error in pattern detector '' @ fst nd @ '': '' @ what) s)"

definition enabled_detectors ::
  "'cfg engine \<Rightarrow> (string \<times> 'cfg IPatternDetector) list" where
  "enabled_detectors s = filter (\<lambda>nd. is_enabled (snd nd)) (detectors s)"

definition process_trade_internal :: "TradeData \<Rightarrow> 'cfg engine \<Rightarrow> 'cfg engine" where
  "process_trade_internal t s =
     (let context = update_context (context_cache s) t;
          s1 = s\<lparr>context_cache := (context_cache s)(context_key t \<mapsto> context)\<rparr>
      in foldl (run_detector t context) s1 (enabled_detectors s1))"

text \<open>
  What the detectors of a list return for a trade and a snapshot, each taken on its own:
  the alerts, and the error lines for those that throw.
\<close>

definition fan_out_alerts ::
  "TradeData \<Rightarrow> HistoricalContext \<Rightarrow> (string \<times> 'cfg IPatternDetector) list \<Rightarrow> SurveillanceAlert list" where
  "fan_out_alerts t ctx ds =
     concat (map (\<lambda>nd. case detect_pattern (snd nd) t ctx of
                          Alert a \<Rightarrow> [a] | NoAlert \<Rightarrow> [] | Throws what \<Rightarrow> []) ds)"

definition fan_out_errors ::
  "TradeData \<Rightarrow> HistoricalContext \<Rightarrow> (string \<times> 'cfg IPatternDetector) list \<Rightarrow> log_entry list" where
  "fan_out_errors t ctx ds =
     concat (map (\<lambda>nd. case detect_pattern (snd nd) t ctx of
                          Alert a \<Rightarrow> [] | NoAlert \<Rightarrow> []
                        | Throws what \<Rightarrow>
                            [(LError, ''Error in pattern detector '' @ fst nd @ '': '' @ what)]) ds)"

text \<open>
  Every cached context has the window of a default-constructed one. No operation of
  the engine writes \<open>lookback_window\<close>, so this holds of every engine the code builds.
\<close>

definition default_windows :: "'cfg engine \<Rightarrow> bool" where
  "default_windows s \<longleftrightarrow> (\<forall>k c. context_cache s k = Some c \<longrightarrow> lookback_window c = 5)"

subsection \<open>The worker\<close>

text \<open>
  The effect on the peak counter of another worker's successful compare-exchange with
  the value \<open>v\<close>: that worker writes only while \<open>v\<close> exceeds the value it compared
  against, which is the value of the counter at that moment.
\<close>

definition interfere :: "64 word \<Rightarrow> 64 word \<Rightarrow> 64 word" where
  "interfere cell v = (if cell < v then v else cell)"

text \<open>
  One attempt of this worker's \<^verbatim>\<open>compare_exchange_weak\<close> comes with the writes of other
  workers that land just before it and with a flag for a spurious failure.
\<close>

type_synonym cas_schedule = "(64 word list \<times> bool) list"

text \<open>
  The loop \<^verbatim>\<open>while (processing_time > current_peak && !compare_exchange_weak(current_peak,
  processing_time))\<close>: \<open>cur\<close> is the local \<^verbatim>\<open>current_peak\<close>, \<open>cell\<close> the atomic counter; the
  result is the counter when the loop exits. A failed exchange reloads \<open>cur\<close> from the
  counter. Once the schedule is used up nothing interferes any more.
\<close>

function peak_cas_loop :: "64 word \<Rightarrow> 64 word \<Rightarrow> 64 word \<Rightarrow> cas_schedule \<Rightarrow> 64 word" where
  "peak_cas_loop pt cur cell sched =
     (if \<not> cur < pt then cell
      else case sched of
             [] \<Rightarrow> if cell = cur then pt else peak_cas_loop pt cell cell []
           | (vs, spurious) # rest \<Rightarrow>
               let cell' = foldl interfere cell vs
               in if cell' = cur \<and> \<not> spurious then pt
                  else peak_cas_loop pt cell' cell' rest)"
  by pat_completeness auto
termination
  by (relation "measure (\<lambda>(pt, cur, cell, sched).
        length sched + (if sched = [] \<and> cell \<noteq> cur then 1 else 0))") auto

text \<open>\<^verbatim>\<open>current_peak = load()\<close> followed by the loop.\<close>

definition update_peak :: "64 word \<Rightarrow> cas_schedule \<Rightarrow> 64 word \<Rightarrow> 64 word" where
  "update_peak pt sched cell = peak_cas_loop pt cell cell sched"

text \<open>
  What one loop iteration of the worker takes from outside: the measured
  \<^verbatim>\<open>processing_time\<close> (as the unsigned value the counters receive) and the schedule of
  its peak update.
\<close>

type_synonym observation = "64 word \<times> cas_schedule"

text \<open>
  One iteration of the loop in \<^verbatim>\<open>worker_thread_func\<close>. A failed \<^verbatim>\<open>pop\<close> yields and leaves
  the engine as it is. Only handles of pool slots are ever pushed, so the popped pointer
  is not null.
\<close>

definition worker_iteration :: "observation \<Rightarrow> 'cfg engine \<Rightarrow> 'cfg engine" where
  "worker_iteration ob s =
     (case queue_pop (trade_queue s) of
        None \<Rightarrow> s
      | Some (slot, q') \<Rightarrow>
          let s1 = s\<lparr>trade_queue := q'\<rparr>;
              s2 = process_trade_internal (pool_slots (memory_pool s1) slot) s1;
              s3 = s2\<lparr>processing_time_ns := processing_time_ns s2 + fst ob\<rparr>;
              s4 = s3\<lparr>peak_counter := update_peak (fst ob) (snd ob) (peak_counter s3)\<rparr>;
              s5 = s4\<lparr>trades_processed := trades_processed s4 + 1\<rparr>
          in s5\<lparr>memory_pool := deallocate slot (memory_pool s5)\<rparr>)"

text \<open>
  \<^verbatim>\<open>worker_thread_func\<close>, one observation per iteration of its \<^verbatim>\<open>while\<close> loop. The result
  is \<open>None\<close> when the loop has not exited after the iterations supplied.
\<close>

fun worker_thread_func :: "observation list \<Rightarrow> 'cfg engine \<Rightarrow> 'cfg engine option" where
  "worker_thread_func [] s =
     (if running s \<or> q_items (trade_queue s) \<noteq> [] then None else Some s)"
| "worker_thread_func (ob # obs) s =
     (if running s \<or> q_items (trade_queue s) \<noteq> []
      then worker_thread_func obs (worker_iteration ob s)
      else Some s)"

subsection \<open>Lifecycle, statistics and registry\<close>

definition start :: "'cfg engine \<Rightarrow> bool \<times> 'cfg engine" where
  "start s =
     (if running s then (False, log_msg LWarn ''TradePatternDetector is already running'' s)
      else (True, s\<lparr>shutdown_requested := False, running := True\<rparr>))"

text \<open>
  \<^verbatim>\<open>stop\<close>: the two flags, then the join, which is the worker running to the end of its
  loop.
\<close>

definition stop :: "observation list \<Rightarrow> 'cfg engine \<Rightarrow> 'cfg engine option" where
  "stop obs s =
     (if \<not> running s then Some s
      else worker_thread_func obs (s\<lparr>shutdown_requested := True, running := False\<rparr>))"

text \<open>\<^verbatim>\<open>duration_cast\<close> to a coarser unit truncates towards zero.\<close>

definition duration_cast :: "int \<Rightarrow> int \<Rightarrow> int" where
  "duration_cast ticks_per_unit d =
     (if 0 \<le> d then d div ticks_per_unit else - ((- d) div ticks_per_unit))"

text \<open>
  \<^verbatim>\<open>get_statistics\<close>, with the readings of the two clocks as arguments. The quotient of
  the throughput is exact here, not rounded to a double.
\<close>

definition get_statistics :: "int \<Rightarrow> int \<Rightarrow> 'cfg engine \<Rightarrow> ProcessingStats" where
  "get_statistics now_hr now_sys s =
     (let stats0 = statistics s;
          stats1 = stats0\<lparr>total_trades_processed := trades_processed s\<rparr>;
          stats2 = stats1\<lparr>total_alerts_generated := alerts_generated s\<rparr>;
          stats3 = stats2\<lparr>queue_size := of_nat (length (q_items (trade_queue s)))\<rparr>;
          duration = duration_cast 1000000000 (now_hr - last_stats_update s);
          stats4 = (if duration > 0
                    then stats3\<lparr>throughput_trades_per_second :=
                            DFinite (real (unat (total_trades_processed stats3)) / real_of_int duration)\<rparr>
                    else stats3)
      in stats4\<lparr>last_updated := now_sys\<rparr>)"

text \<open>
  Writing through the registry: \<^verbatim>\<open>detectors_[name] = d\<close>, and a call through the pointer
  that \<^verbatim>\<open>find\<close> returned.
\<close>

fun registry_put :: "string \<Rightarrow> 'd \<Rightarrow> (string \<times> 'd) list \<Rightarrow> (string \<times> 'd) list" where
  "registry_put n d [] = [(n, d)]"
| "registry_put n d (e # es) = (if fst e = n then (n, d) # es else e # registry_put n d es)"

definition register_pattern_detector ::
  "string \<Rightarrow> 'cfg IPatternDetector \<Rightarrow> 'cfg engine \<Rightarrow> 'cfg engine" where
  "register_pattern_detector name d s = s\<lparr>detectors := registry_put name d (detectors s)\<rparr>"

definition toggle_pattern :: "string \<Rightarrow> bool \<Rightarrow> 'cfg engine \<Rightarrow> 'cfg engine" where
  "toggle_pattern name enabled s =
     (case map_of (detectors s) name of
        Some d \<Rightarrow> s\<lparr>detectors := registry_put name (set_enabled enabled d) (detectors s)\<rparr>
      | None \<Rightarrow> log_msg LWarn (''Pattern not found: '' @ name) s)"

definition update_pattern_config :: "string \<Rightarrow> 'cfg \<Rightarrow> 'cfg engine \<Rightarrow> 'cfg engine" where
  "update_pattern_config name config s =
     (case map_of (detectors s) name of
        Some d \<Rightarrow> s\<lparr>detectors := registry_put name (update_config config d) (detectors s)\<rparr>
      | None \<Rightarrow> log_msg LWarn (''Pattern not found: '' @ name) s)"

subsection \<open>Engines, trades and detectors for the scenarios\<close>

text \<open>A value-initialised \<^verbatim>\<open>TradeData\<close>, the content of a pool slot never written.\<close>

definition blank_trade :: TradeData where
  "blank_trade =
     \<lparr> trade_id = [], instrument_symbol = [], account_id = [], client_id = [],
       trade_type = BUY, segment = EQUITY, quantity = 0, price = DFinite 0,
       trade_value = DFinite 0, exchange = [], timestamp = 0, order_id = [], trader_id = [],
       is_own_account = False, brokerage = DFinite 0, taxes = DFinite 0,
       instrument_id_hash = 0, account_id_hash = 0, client_id_hash = 0 \<rparr>"

text \<open>A trade of 10 units at price 2 with the given identifiers and timestamp.\<close>

definition sample_trade :: "string \<Rightarrow> string \<Rightarrow> string \<Rightarrow> 64 word \<Rightarrow> TradeData" where
  "sample_trade tid symb acc ts =
     blank_trade\<lparr>trade_id := tid, instrument_symbol := symb, account_id := acc,
                 quantity := 10, price := DFinite 2, trade_value := DFinite 20,
                 timestamp := ts\<rparr>"

text \<open>
  The engine as the constructors leave it: nothing running, all counters zero, empty
  registry, cache and queues. The pool capacity (1000000 in the source) and the queue
  size are arguments, as is the clock reading stored in \<^verbatim>\<open>last_stats_update_\<close>.
\<close>

definition new_engine :: "nat \<Rightarrow> nat \<Rightarrow> int \<Rightarrow> 'cfg engine" where
  "new_engine pool_capacity queue_capacity now_hr =
     \<lparr> running = False, shutdown_requested = False,
       memory_pool = \<lparr> pool_free = [0..<pool_capacity], pool_slots = (\<lambda>_. blank_trade) \<rparr>,
       trade_queue = \<lparr> q_items = [], q_capacity = queue_capacity \<rparr>,
       context_cache = Map.empty, detectors = [], statistics = default_stats,
       alert_queue = [], last_stats_update = now_hr,
       trades_processed = 0, alerts_generated = 0, processing_time_ns = 0,
       peak_counter = 0, spdlog = [] \<rparr>"

text \<open>Submitting a list of trades one after the other, all at clock reading \<open>now\<close>.\<close>

fun submit_all :: "64 word \<Rightarrow> TradeData list \<Rightarrow> 'cfg engine \<Rightarrow> 'cfg engine" where
  "submit_all now [] s = s"
| "submit_all now (t # ts) s = submit_all now ts (snd (process_trade now t s))"

text \<open>Three detectors without configuration: one always fails, one always alerts, one never does.\<close>

definition throw_detector :: "unit IPatternDetector" where
  "throw_detector =
     \<lparr> det_enabled = True, det_config = (), det_detect = (\<lambda>_ _ _. Throws ''boom'') \<rparr>"

definition always_detector :: "unit IPatternDetector" where
  "always_detector =
     \<lparr> det_enabled = True, det_config = (),
       det_detect = (\<lambda>_ t _. Alert \<lparr> alert_type = ''test'', title = ''X'', description = [],
                                       pattern_name = ''always_detector'',
                                       alert_trade_id = trade_id t \<rparr>) \<rparr>"

definition null_detector :: "unit IPatternDetector" where
  "null_detector =
     \<lparr> det_enabled = True, det_config = (), det_detect = (\<lambda>_ _ _. NoAlert) \<rparr>"

text \<open>A constructed engine after \<^verbatim>\<open>start\<close>.\<close>

definition running_engine :: "nat \<Rightarrow> nat \<Rightarrow> 'cfg engine" where
  "running_engine pool_capacity queue_capacity =
     snd (start (new_engine pool_capacity queue_capacity 0))"

text \<open>
  The scenario of the sliding window: a cache entry for (INST1, ACC1) whose window is one
  minute, and the engine after the trades at 0 s and 30 s have been processed.
\<close>

definition s3_engine :: "unit engine" where
  "s3_engine =
     (new_engine 4 4 0)\<lparr>context_cache :=
        [''INST1_ACC1'' \<mapsto> default_context\<lparr>lookback_window := 1\<rparr>]\<rparr>"

definition s3_after_two :: "unit engine" where
  "s3_after_two =
     process_trade_internal (sample_trade ''T30'' ''INST1'' ''ACC1'' 30000000000)
       (process_trade_internal (sample_trade ''T0'' ''INST1'' ''ACC1'' 0) s3_engine)"

text \<open>A cache entry with a window of zero that retains one trade, stamped 20.\<close>

definition zero_window_engine :: "unit engine" where
  "zero_window_engine =
     (new_engine 4 4 0)\<lparr>context_cache :=
        [''INST1_ACC1'' \<mapsto> default_context\<lparr>lookback_window := 0,
            recent_trades := [sample_trade ''T1'' ''INST1'' ''ACC1'' 20]\<rparr>]\<rparr>"

text \<open>
  A valid trade stamped with the smallest tick count a time point can hold, a detector
  that alerts exactly when the snapshot it is given holds a trade with the id of the
  trade it is called for, and the run in which one trade is submitted to a started
  engine with that detector and processed by the worker.
\<close>

definition earliest_trade :: TradeData where
  "earliest_trade = sample_trade ''TMIN'' ''INST1'' ''ACC1'' (- 9223372036854775808)"

definition probe_detector :: "unit IPatternDetector" where
  "probe_detector =
     \<lparr> det_enabled = True, det_config = (),
       det_detect = (\<lambda>_ t ctx.
          if trade_id t \<in> set (map trade_id (recent_trades ctx))
          then Alert \<lparr> alert_type = ''test'', title = ''seen'', description = [],
                       pattern_name = ''probe'', alert_trade_id = trade_id t \<rparr>
          else NoAlert) \<rparr>"

definition probe_run :: "TradeData \<Rightarrow> unit engine option" where
  "probe_run t =
     stop [(10, [])]
       (submit_all 100 [t]
          (snd (start (register_pattern_detector ''probe'' probe_detector (new_engine 4 4 0)))))"

text \<open>
  The scenario of detector error isolation: a detector \<open>d\<close> registered as
  \<open>throw_detector\<close> next to \<open>always_detector\<close>, the engine started, five trades
  submitted, then \<^verbatim>\<open>stop\<close>, whose join lets the worker drain the queue.
\<close>

definition s6_trades :: "TradeData list" where
  "s6_trades =
     [sample_trade ''T1'' ''INST1'' ''ACC1'' 1, sample_trade ''T2'' ''INST1'' ''ACC1'' 2,
      sample_trade ''T3'' ''INST1'' ''ACC1'' 3, sample_trade ''T4'' ''INST1'' ''ACC1'' 4,
      sample_trade ''T5'' ''INST1'' ''ACC1'' 5]"

definition s6_engine :: "unit IPatternDetector \<Rightarrow> unit engine" where
  "s6_engine d =
     submit_all 100 s6_trades
       (snd (start (register_pattern_detector ''always_detector'' always_detector
                      (register_pattern_detector ''throw_detector'' d (new_engine 8 8 0)))))"

definition s6_obs :: "observation list" where
  "s6_obs = [(10, []), (20, []), (30, []), (40, []), (50, [])]"

definition s6_result :: "unit IPatternDetector \<Rightarrow> unit engine option" where
  "s6_result d = stop s6_obs (s6_engine d)"

text \<open>
  Three trades processed with durations 5, 9 and 3; during the second peak update
  another worker raises the counter to 7 and one exchange fails spuriously.
\<close>

definition peak_obs :: "observation list" where
  "peak_obs = [(5, []), (9, [([7], False), ([], True)]), (3, [])]"

definition peak_engine :: "unit engine" where
  "peak_engine =
     (submit_all 100 (take 3 s6_trades) (running_engine 4 4))\<lparr>running := False\<rparr>"

text \<open>One trade submitted to a new engine and processed in 100 ns.\<close>

definition one_trade_done :: "unit engine option" where
  "one_trade_done =
     stop [(100, [])] (submit_all 100 [sample_trade ''T1'' ''INST1'' ''ACC1'' 1] (running_engine 4 4))"

text \<open>An engine whose queue of capacity one is full, and one whose pool has no slot.\<close>

definition queue_full_engine :: "unit engine" where
  "queue_full_engine =
     submit_all 100 [sample_trade ''T1'' ''INST1'' ''ACC1'' 1] (running_engine 4 1)"

definition pool_empty_engine :: "unit engine" where
  "pool_empty_engine = running_engine 0 4"

subsection \<open>The running statistics as the specification words them\<close>

text \<open>
  The average price and the average volume (quantity) of the trades in a window, over
  the finite values; the code has no counterpart of these two functions.
\<close>

fun real_of_double :: "double \<Rightarrow> real" where
  "real_of_double (DFinite r) = r"
| "real_of_double DPosInf = 0"
| "real_of_double DNegInf = 0"
| "real_of_double DNaN = 0"

definition spec_avg_price :: "TradeData list \<Rightarrow> double" where
  "spec_avg_price w =
     DFinite (sum_list (map (\<lambda>t. real_of_double (price t)) w) / real (length w))"

definition spec_avg_volume :: "TradeData list \<Rightarrow> double" where
  "spec_avg_volume w =
     DFinite (sum_list (map (\<lambda>t. real (unat (quantity t))) w) / real (length w))"


section \<open>Properties\<close>

subsection \<open>Validation at submit\<close>

lemma validate_trade_data_iff:
  "fst (validate_trade_data now t) \<longleftrightarrow> spec_is_valid now t"
  unfolding validate_trade_data_def is_valid_def spec_is_valid_def
  by (cases "price t") (auto simp: word_gt_0 signed.not_less)

lemma process_trade_accepted:
  "fst (process_trade now t s) \<Longrightarrow> running s \<and> fst (validate_trade_data now t)"
  unfolding process_trade_def
  by (auto simp: Let_def log_msg_def split: if_splits prod.splits option.splits)

lemma process_trade_invalid:
  assumes "running s" and "\<not> fst (validate_trade_data now t)"
  shows "process_trade now t s =
           (False, s\<lparr>spdlog := spdlog s @ snd (validate_trade_data now t) @
                       [(LWarn, ''Invalid trade data received: '' @ trade_id t)]\<rparr>)"
  using assms unfolding process_trade_def
  by (auto simp: Let_def log_msg_def split: prod.splits)

text \<open>
  C1. While the engine is running, the check that \<^verbatim>\<open>process_trade\<close> applies is the
  validity predicate of the specification: non-empty trade id and instrument symbol,
  positive quantity, price and value, and a timestamp not after now. A trade is accepted
  only if it is valid; an invalid trade is refused with \<open>False\<close>, and neither the queue
  nor the pool is touched.
\<close>

theorem C1_submit_validation:
  assumes "running s"
  shows "(fst (validate_trade_data now t) \<longleftrightarrow> spec_is_valid now t) \<and>
         (fst (process_trade now t s) \<longrightarrow> spec_is_valid now t) \<and>
         (\<not> spec_is_valid now t \<longrightarrow>
            \<not> fst (process_trade now t s) \<and>
            trade_queue (snd (process_trade now t s)) = trade_queue s \<and>
            memory_pool (snd (process_trade now t s)) = memory_pool s)"
proof (intro conjI impI)
  show "fst (validate_trade_data now t) \<longleftrightarrow> spec_is_valid now t"
    by (rule validate_trade_data_iff)
next
  assume "fst (process_trade now t s)"
  then show "spec_is_valid now t"
    using process_trade_accepted validate_trade_data_iff by blast
next
  assume bad: "\<not> spec_is_valid now t"
  then have inv: "\<not> fst (validate_trade_data now t)"
    by (simp add: validate_trade_data_iff)
  note eq = process_trade_invalid [OF assms inv]
  show "\<not> fst (process_trade now t s)" by (simp add: eq)
  show "trade_queue (snd (process_trade now t s)) = trade_queue s" by (simp add: eq)
  show "memory_pool (snd (process_trade now t s)) = memory_pool s" by (simp add: eq)
qed

lemma running_engine_runs: "running (running_engine p q)"
  by (simp add: running_engine_def start_def new_engine_def)

theorem C1_submit_validation_witness:
  "running (running_engine 4 4 :: unit engine) \<and>
   spec_is_valid 100 (sample_trade ''T1'' ''INST1'' ''ACC1'' 50) \<and>
   \<not> spec_is_valid 100 (sample_trade ''T2'' ''INST1'' ''ACC1'' 101) \<and>
   \<not> fst (process_trade 100 (sample_trade ''T2'' ''INST1'' ''ACC1'' 101)
            (running_engine 4 4 :: unit engine))"
  using C1_submit_validation [of "running_engine 4 4 :: unit engine" 100
          "sample_trade ''T2'' ''INST1'' ''ACC1'' 101"]
  by (simp add: running_engine_runs spec_is_valid_def sample_trade_def blank_trade_def)

subsection \<open>Registry operations on an unknown name\<close>

text \<open>
  C10. For a name that is not in the registry, \<^verbatim>\<open>toggle_pattern\<close> and
  \<^verbatim>\<open>update_pattern_config\<close> each log one warning and change nothing else in the engine:
  the registry is the same list, so no entry is created and no detector's flag or
  configuration is modified.
\<close>

theorem C10_unknown_pattern_frame:
  assumes "map_of (detectors s) name = None"
  shows "toggle_pattern name flag s =
           s\<lparr>spdlog := spdlog s @ [(LWarn, ''Pattern not found: '' @ name)]\<rparr> \<and>
         update_pattern_config name config s =
           s\<lparr>spdlog := spdlog s @ [(LWarn, ''Pattern not found: '' @ name)]\<rparr> \<and>
         detectors (toggle_pattern name flag s) = detectors s \<and>
         detectors (update_pattern_config name config s) = detectors s"
  using assms by (simp add: toggle_pattern_def update_pattern_config_def log_msg_def)

theorem C10_unknown_pattern_frame_witness:
  "map_of (detectors (register_pattern_detector ''always'' always_detector
                        (new_engine 4 4 0))) ''missing'' = None \<and>
   detectors (toggle_pattern ''missing'' False
                (register_pattern_detector ''always'' always_detector (new_engine 4 4 0)))
     = [(''always'', always_detector)] \<and>
   detectors (update_pattern_config ''missing'' ()
                (register_pattern_detector ''always'' always_detector (new_engine 4 4 0)))
     = [(''always'', always_detector)]"
proof -
  have h: "map_of (detectors (register_pattern_detector ''always'' always_detector
                                (new_engine 4 4 0))) ''missing'' = None"
    by (simp add: register_pattern_detector_def new_engine_def)
  show ?thesis
    using h C10_unknown_pattern_frame [OF h, of False "()"]
    by (simp add: register_pattern_detector_def new_engine_def)
qed

subsection \<open>The context update\<close>

lemma run_detector_frame:
  "context_cache (run_detector t ctx s nd) = context_cache s"
  "trade_queue (run_detector t ctx s nd) = trade_queue s"
  "memory_pool (run_detector t ctx s nd) = memory_pool s"
  "detectors (run_detector t ctx s nd) = detectors s"
  "running (run_detector t ctx s nd) = running s"
  "trades_processed (run_detector t ctx s nd) = trades_processed s"
  "processing_time_ns (run_detector t ctx s nd) = processing_time_ns s"
  "peak_counter (run_detector t ctx s nd) = peak_counter s"
  "statistics (run_detector t ctx s nd) = statistics s"
  by (simp_all add: run_detector_def log_msg_def split: detect_outcome.splits)

lemma fan_out_frame:
  "context_cache (foldl (run_detector t ctx) s ds) = context_cache s"
  "trade_queue (foldl (run_detector t ctx) s ds) = trade_queue s"
  "memory_pool (foldl (run_detector t ctx) s ds) = memory_pool s"
  "detectors (foldl (run_detector t ctx) s ds) = detectors s"
  "running (foldl (run_detector t ctx) s ds) = running s"
  "trades_processed (foldl (run_detector t ctx) s ds) = trades_processed s"
  "processing_time_ns (foldl (run_detector t ctx) s ds) = processing_time_ns s"
  "peak_counter (foldl (run_detector t ctx) s ds) = peak_counter s"
  "statistics (foldl (run_detector t ctx) s ds) = statistics s"
  by (induction ds arbitrary: s; simp add: run_detector_frame)+

lemma process_trade_internal_cache:
  "context_cache (process_trade_internal t s) =
     (context_cache s)(context_key t \<mapsto> update_context (context_cache s) t)"
  by (simp add: process_trade_internal_def Let_def fan_out_frame)

lemma update_context_eq:
  "update_context cache t =
     (find_context cache (context_key t))
       \<lparr>recent_trades :=
          filter (\<lambda>x. \<not> timestamp x <s timestamp t -
                          minutes_to_ticks (lookback_window (find_context cache (context_key t))))
            (recent_trades (find_context cache (context_key t)) @ [t])\<rparr>"
  by (simp add: update_context_def Let_def)

lemmas ctx_eval = process_trade_internal_cache update_context_eq find_context_def context_key_def
  sample_trade_def blank_trade_def minutes_to_ticks_def default_context_def


text \<open>
  Where the 64-bit arithmetic does not overflow (the window is not negative, its tick
  count fits, and the cut-off is not below the smallest time point) the update does what
  the sliding window is meant to do: the snapshot is the previous list with exactly the
  trades removed whose timestamp is below \<open>timestamp t\<close> minus the window, followed by
  \<open>t\<close>. The scenario with a window of 60 s and trades at 0 s, 30 s and 90 s is an
  instance: the third snapshot holds the trades at 30 s and 90 s.
\<close>

lemma update_context_in_range:
  fixes cache t
  defines "w \<equiv> lookback_window (find_context cache (context_key t))"
  assumes "0 \<le> sint w" and "sint w * 60000000000 < 2 ^ 63"
    and "- (2 ^ 63) \<le> sint (timestamp t) - sint w * 60000000000"
  shows "recent_trades (update_context cache t) =
           filter (\<lambda>x. \<not> sint (timestamp x) < sint (timestamp t) - sint w * 60000000000)
             (recent_trades (find_context cache (context_key t))) @ [t]"
proof -
  have ticks: "sint (minutes_to_ticks w) = sint w * 60000000000"
    using assms(2,3)
    by (simp add: minutes_to_ticks_def sint_word_ariths signed_take_bit_int_eq_self)
  have "sint (timestamp t) < 2 ^ 63"
    using sint_lt [of "timestamp t"] by simp
  then have cut: "sint (timestamp t - minutes_to_ticks w) =
                    sint (timestamp t) - sint w * 60000000000"
    using assms(2,4)
    by (simp add: sint_word_ariths ticks signed_take_bit_int_eq_self)
  have keep: "\<not> timestamp t <s timestamp t - minutes_to_ticks w"
    using assms(2) by (simp add: word_sless_alt cut)
  show ?thesis
    using keep by (simp add: update_context_eq w_def [symmetric] word_sless_alt cut)
qed

lemma s3_snapshot:
  "recent_trades (update_context (context_cache s3_after_two)
                    (sample_trade ''T90'' ''INST1'' ''ACC1'' 90000000000)) =
     [sample_trade ''T30'' ''INST1'' ''ACC1'' 30000000000,
      sample_trade ''T90'' ''INST1'' ''ACC1'' 90000000000]"
  by (simp add: s3_after_two_def s3_engine_def ctx_eval word_sless_alt)

text \<open>
  C2. The context update appends the processed trade and is to remove only the earlier
  trades that fall out of the window, so that the snapshot handed to the detectors
  contains the trade itself. It does not for a trade stamped with the smallest tick
  count: the trade is valid and is accepted, the window is the default of five minutes,
  and the cut-off \<open>timestamp - window\<close> wraps around to a late time point, so the trade
  just appended is removed with the rest. The snapshot is empty, and the detector that
  looks for the trade in its snapshot does not find it, while it does for a trade
  stamped 1.
\<close>

theorem C2_window_overflow:
  "spec_is_valid 100 earliest_trade \<and>
   fst (process_trade 100 earliest_trade (running_engine 4 4 :: unit engine)) \<and>
   lookback_window (find_context (context_cache (new_engine 4 4 0 :: unit engine))
                      (context_key earliest_trade)) = 5 \<and>
   recent_trades (update_context (context_cache (new_engine 4 4 0 :: unit engine))
                    earliest_trade) = [] \<and>
   map_option trades_processed (probe_run earliest_trade) = Some 1 \<and>
   map_option alerts_generated (probe_run earliest_trade) = Some 0 \<and>
   map_option alerts_generated (probe_run (sample_trade ''T1'' ''INST1'' ''ACC1'' 1)) = Some 1"
  by code_simp

text \<open>
  C7 (amended). With a window of zero the snapshot consists of the triggering trade and
  of the retained trades that are not older than it; the retained trades are all pruned
  when each of them is strictly older than the triggering trade.
\<close>

theorem C7_zero_window:
  assumes "context_cache s (context_key t) = Some c" and "lookback_window c = 0"
  shows "recent_trades (update_context (context_cache s) t) =
           filter (\<lambda>x. timestamp t \<le>s timestamp x) (recent_trades c) @ [t] \<and>
         ((\<forall>x \<in> set (recent_trades c). timestamp x <s timestamp t) \<longrightarrow>
            recent_trades (update_context (context_cache s) t) = [t])"
proof -
  have fc: "find_context (context_cache s) (context_key t) = c"
    using assms(1) by (simp add: find_context_def)
  have eq: "recent_trades (update_context (context_cache s) t) =
           filter (\<lambda>x. timestamp t \<le>s timestamp x) (recent_trades c) @ [t]"
    by (simp add: update_context_eq fc assms(2) minutes_to_ticks_def signed.not_less)
  have "filter (\<lambda>x. timestamp t \<le>s timestamp x) (recent_trades c) = []"
    if "\<forall>x \<in> set (recent_trades c). timestamp x <s timestamp t"
    using that by (auto simp: filter_empty_conv signed.not_le)
  with eq show ?thesis by simp
qed


text \<open>
  The claim as stated fails for a late trade: the entry retains a trade stamped 20, the
  window is zero, and a trade stamped 10 arrives. The snapshot holds both.
\<close>

theorem C7_zero_window_counterexample:
  "lookback_window (find_context (context_cache zero_window_engine)
      (context_key (sample_trade ''T2'' ''INST1'' ''ACC1'' 10))) = 0 \<and>
   recent_trades (update_context (context_cache zero_window_engine)
      (sample_trade ''T2'' ''INST1'' ''ACC1'' 10)) =
     [sample_trade ''T1'' ''INST1'' ''ACC1'' 20, sample_trade ''T2'' ''INST1'' ''ACC1'' 10] \<and>
   recent_trades (update_context (context_cache zero_window_engine)
      (sample_trade ''T2'' ''INST1'' ''ACC1'' 10)) \<noteq> [sample_trade ''T2'' ''INST1'' ''ACC1'' 10]"
  by (simp add: zero_window_engine_def ctx_eval)

theorem C7_zero_window_witness:
  "context_cache zero_window_engine (context_key (sample_trade ''T3'' ''INST1'' ''ACC1'' 30)) =
     Some (default_context\<lparr>lookback_window := 0,
             recent_trades := [sample_trade ''T1'' ''INST1'' ''ACC1'' 20]\<rparr>) \<and>
   lookback_window (default_context\<lparr>lookback_window := 0,
             recent_trades := [sample_trade ''T1'' ''INST1'' ''ACC1'' 20]\<rparr>) = 0 \<and>
   recent_trades (update_context (context_cache zero_window_engine)
      (sample_trade ''T3'' ''INST1'' ''ACC1'' 30)) = [sample_trade ''T3'' ''INST1'' ''ACC1'' 30]"
proof -
  have h1: "context_cache zero_window_engine (context_key (sample_trade ''T3'' ''INST1'' ''ACC1'' 30)) =
     Some (default_context\<lparr>lookback_window := 0,
             recent_trades := [sample_trade ''T1'' ''INST1'' ''ACC1'' 20]\<rparr>)"
    by (simp add: zero_window_engine_def context_key_def sample_trade_def blank_trade_def)
  have h2: "lookback_window (default_context\<lparr>lookback_window := 0,
             recent_trades := [sample_trade ''T1'' ''INST1'' ''ACC1'' 20]\<rparr>) = 0"
    by simp
  show ?thesis
    using h1 h2 C7_zero_window [OF h1 h2]
    by (simp add: sample_trade_def blank_trade_def)
qed


text \<open>
  C8 (amended). The context update leaves \<open>avg_volume\<close>, \<open>avg_price\<close> and
  \<open>price_volatility\<close> as they were in the cached entry, in the snapshot as well as in
  the cache; for a key seen for the first time they are the 0.0 of a default-constructed
  context. Nothing recomputes them from the window.
\<close>

theorem C8_statistics_carried_over:
  "avg_volume (update_context (context_cache s) t) =
     avg_volume (find_context (context_cache s) (context_key t)) \<and>
   avg_price (update_context (context_cache s) t) =
     avg_price (find_context (context_cache s) (context_key t)) \<and>
   price_volatility (update_context (context_cache s) t) =
     price_volatility (find_context (context_cache s) (context_key t)) \<and>
   map_option avg_volume (context_cache (process_trade_internal t s) (context_key t)) =
     Some (avg_volume (find_context (context_cache s) (context_key t))) \<and>
   map_option avg_price (context_cache (process_trade_internal t s) (context_key t)) =
     Some (avg_price (find_context (context_cache s) (context_key t))) \<and>
   map_option price_volatility (context_cache (process_trade_internal t s) (context_key t)) =
     Some (price_volatility (find_context (context_cache s) (context_key t))) \<and>
   (context_cache s (context_key t) = None \<longrightarrow>
      avg_volume (update_context (context_cache s) t) = DFinite 0 \<and>
      avg_price (update_context (context_cache s) t) = DFinite 0 \<and>
      price_volatility (update_context (context_cache s) t) = DFinite 0)"
  by (simp add: process_trade_internal_cache update_context_eq find_context_def default_context_def)


theorem C8_statistics_carried_over_witness:
  "context_cache (new_engine 4 4 0 :: unit engine)
     (context_key (sample_trade ''T1'' ''INST1'' ''ACC1'' 10)) = None \<and>
   avg_price (update_context (context_cache (new_engine 4 4 0 :: unit engine))
     (sample_trade ''T1'' ''INST1'' ''ACC1'' 10)) = DFinite 0"
proof -
  have h: "context_cache (new_engine 4 4 0 :: unit engine)
             (context_key (sample_trade ''T1'' ''INST1'' ''ACC1'' 10)) = None"
    by (simp add: new_engine_def)
  from C8_statistics_carried_over [of "new_engine 4 4 0 :: unit engine" "sample_trade ''T1'' ''INST1'' ''ACC1'' 10"] h
  have "avg_price (update_context (context_cache (new_engine 4 4 0 :: unit engine))
          (sample_trade ''T1'' ''INST1'' ''ACC1'' 10)) = DFinite 0"
    by blast
  with h show ?thesis by (intro conjI)
qed


text \<open>
  The claim as stated fails on the first trade of a key: the window holds one trade of
  10 units at price 2, and the snapshot reports an average price and volume of 0.
\<close>

theorem C8_statistics_counterexample:
  "recent_trades (update_context (context_cache (new_engine 4 4 0 :: unit engine))
     (sample_trade ''T1'' ''INST1'' ''ACC1'' 10)) = [sample_trade ''T1'' ''INST1'' ''ACC1'' 10] \<and>
   avg_price (update_context (context_cache (new_engine 4 4 0 :: unit engine))
     (sample_trade ''T1'' ''INST1'' ''ACC1'' 10)) = DFinite 0 \<and>
   spec_avg_price [sample_trade ''T1'' ''INST1'' ''ACC1'' 10] = DFinite 2 \<and>
   avg_volume (update_context (context_cache (new_engine 4 4 0 :: unit engine))
     (sample_trade ''T1'' ''INST1'' ''ACC1'' 10)) = DFinite 0 \<and>
   spec_avg_volume [sample_trade ''T1'' ''INST1'' ''ACC1'' 10] = DFinite 10 \<and>
   avg_price (update_context (context_cache (new_engine 4 4 0 :: unit engine))
     (sample_trade ''T1'' ''INST1'' ''ACC1'' 10)) \<noteq>
   spec_avg_price (recent_trades (update_context (context_cache (new_engine 4 4 0 :: unit engine))
     (sample_trade ''T1'' ''INST1'' ''ACC1'' 10)))"
  by (simp add: new_engine_def ctx_eval spec_avg_price_def spec_avg_volume_def)


text \<open>
  C9. The trades with (instrument, account) = (A_B, C) and (A, B_C) are for different
  pairs and have the same cache key; processed one after the other on a new engine they
  end up in one entry, which then holds a trade whose instrument is not that of the
  second trade.
\<close>

theorem C9_key_collision:
  "(instrument_symbol (sample_trade ''T1'' ''A_B'' ''C'' 10), account_id (sample_trade ''T1'' ''A_B'' ''C'' 10)) \<noteq>
   (instrument_symbol (sample_trade ''T2'' ''A'' ''B_C'' 20), account_id (sample_trade ''T2'' ''A'' ''B_C'' 20)) \<and>
   context_key (sample_trade ''T1'' ''A_B'' ''C'' 10) = context_key (sample_trade ''T2'' ''A'' ''B_C'' 20) \<and>
   map_option recent_trades
     (context_cache
        (process_trade_internal (sample_trade ''T2'' ''A'' ''B_C'' 20)
           (process_trade_internal (sample_trade ''T1'' ''A_B'' ''C'' 10)
              (new_engine 4 4 0 :: unit engine)))
        (context_key (sample_trade ''T2'' ''A'' ''B_C'' 20))) =
     Some [sample_trade ''T1'' ''A_B'' ''C'' 10, sample_trade ''T2'' ''A'' ''B_C'' 20] \<and>
   instrument_symbol (sample_trade ''T1'' ''A_B'' ''C'' 10) \<noteq> ''A''"
  by (simp add: new_engine_def ctx_eval)

text \<open>
  In every engine the code can build the windows stay at their default of five minutes.
\<close>

lemma default_windows_new: "default_windows (new_engine p q now)"
  by (simp add: default_windows_def new_engine_def)

lemma default_windows_process_trade_internal:
  "default_windows s \<Longrightarrow> default_windows (process_trade_internal t s)"
  by (auto simp: default_windows_def process_trade_internal_cache update_context_eq
        find_context_def default_context_def split: option.splits if_splits)

lemma default_windows_find_context:
  "default_windows s \<Longrightarrow> lookback_window (find_context (context_cache s) k) = 5"
  by (auto simp: default_windows_def find_context_def default_context_def split: option.splits)

subsection \<open>The compare-and-swap loop on the peak counter\<close>

declare peak_cas_loop.simps [simp del]

lemma interfere_ge: "cell \<le> interfere cell v"
  by (simp add: interfere_def less_imp_le)

lemma foldl_interfere_ge: "cell \<le> foldl interfere cell vs"
proof (induction vs arbitrary: cell)
  case Nil
  show ?case by simp
next
  case (Cons v vs)
  have "cell \<le> interfere cell v" by (rule interfere_ge)
  also have "\<dots> \<le> foldl interfere (interfere cell v) vs" by (rule Cons.IH)
  finally show ?case by simp
qed

lemma peak_cas_loop_ge_cell: "cell \<le> peak_cas_loop pt cur cell sched"
proof (induction pt cur cell sched rule: peak_cas_loop.induct)
  case (1 pt cur cell sched)
  show ?case
  proof (cases "cur < pt")
    case False
    then show ?thesis by (subst peak_cas_loop.simps) simp
  next
    case lt: True
    then have nn: "\<not> \<not> cur < pt" by simp
    show ?thesis
    proof (cases sched)
      case Nil
      show ?thesis
      proof (cases "cell = cur")
        case True
        with lt Nil show ?thesis by (subst peak_cas_loop.simps) simp
      next
        case False
        with lt Nil "1.IH"(1) show ?thesis
          by (subst peak_cas_loop.simps) simp
      qed
    next
      case (Cons e rest)
      obtain vs spurious where e: "e = (vs, spurious)" by (cases e)
      let ?cell' = "foldl interfere cell vs"
      have ge: "cell \<le> ?cell'" by (rule foldl_interfere_ge)
      show ?thesis
      proof (cases "?cell' = cur \<and> \<not> spurious")
        case True
        with lt ge have "cell \<le> pt" by simp
        with True lt Cons e show ?thesis
          by (subst peak_cas_loop.simps) simp
      next
        case False
        have "?cell' \<le> peak_cas_loop pt ?cell' ?cell' rest"
          using "1.IH"(2) [OF nn Cons e [symmetric] refl False] by simp
        with ge have "cell \<le> peak_cas_loop pt ?cell' ?cell' rest" by simp
        with False lt Cons e show ?thesis
          by (subst peak_cas_loop.simps) (auto simp: Let_def)
      qed
    qed
  qed
qed

lemma peak_cas_loop_ge_pt: "cur \<le> cell \<Longrightarrow> pt \<le> peak_cas_loop pt cur cell sched"
proof (induction pt cur cell sched rule: peak_cas_loop.induct)
  case (1 pt cur cell sched)
  show ?case
  proof (cases "cur < pt")
    case False
    with "1.prems" have "pt \<le> cell" by simp
    with False show ?thesis by (subst peak_cas_loop.simps) simp
  next
    case lt: True
    then have nn: "\<not> \<not> cur < pt" by simp
    show ?thesis
    proof (cases sched)
      case Nil
      show ?thesis
      proof (cases "cell = cur")
        case True
        with lt Nil show ?thesis by (subst peak_cas_loop.simps) simp
      next
        case False
        with lt Nil "1.IH"(1) show ?thesis
          by (subst peak_cas_loop.simps) simp
      qed
    next
      case (Cons e rest)
      obtain vs spurious where e: "e = (vs, spurious)" by (cases e)
      let ?cell' = "foldl interfere cell vs"
      show ?thesis
      proof (cases "?cell' = cur \<and> \<not> spurious")
        case True
        with lt Cons e show ?thesis
          by (subst peak_cas_loop.simps) simp
      next
        case False
        have "pt \<le> peak_cas_loop pt ?cell' ?cell' rest"
          using "1.IH"(2) [OF nn Cons e [symmetric] refl False] by simp
        with False lt Cons e show ?thesis
          by (subst peak_cas_loop.simps) (simp add: Let_def)
      qed
    qed
  qed
qed

lemma update_peak_bounds:
  "cell \<le> update_peak pt sched cell" "pt \<le> update_peak pt sched cell"
  by (simp_all add: update_peak_def peak_cas_loop_ge_cell peak_cas_loop_ge_pt)

lemma update_peak_alone: "update_peak pt [] cell = (if cell < pt then pt else cell)"
  by (simp add: update_peak_def peak_cas_loop.simps [of pt cell cell "[]"])

subsection \<open>Fan-out and worker\<close>

lemma fan_out_alerts_Cons:
  "fan_out_alerts t ctx (nd # ds) =
     (case detect_pattern (snd nd) t ctx of
        Alert a \<Rightarrow> [a] | NoAlert \<Rightarrow> [] | Throws what \<Rightarrow> []) @ fan_out_alerts t ctx ds"
  by (simp add: fan_out_alerts_def)

lemma fan_out_errors_Cons:
  "fan_out_errors t ctx (nd # ds) =
     (case detect_pattern (snd nd) t ctx of
        Alert a \<Rightarrow> [] | NoAlert \<Rightarrow> []
      | Throws what \<Rightarrow> [(LError, ''Error in pattern detector '' @ fst nd @ '': '' @ what)])
     @ fan_out_errors t ctx ds"
  by (simp add: fan_out_errors_def)

lemma run_detector_cases:
  "detect_pattern (snd nd) t ctx = NoAlert \<Longrightarrow> run_detector t ctx s nd = s"
  "detect_pattern (snd nd) t ctx = Alert a \<Longrightarrow>
     run_detector t ctx s nd =
       s\<lparr>alert_queue := alert_queue s @ [a], alerts_generated := alerts_generated s + 1\<rparr>"
  "detect_pattern (snd nd) t ctx = Throws what \<Longrightarrow>
     run_detector t ctx s nd =
       s\<lparr>spdlog := spdlog s @ [(LError, ''Error in pattern detector '' @ fst nd @ '': '' @ what)]\<rparr>"
  by (simp_all add: run_detector_def log_msg_def)

lemma fan_out_eq:
  "foldl (run_detector t ctx) s ds =
     s\<lparr>alert_queue := alert_queue s @ fan_out_alerts t ctx ds,
       alerts_generated := alerts_generated s + of_nat (length (fan_out_alerts t ctx ds)),
       spdlog := spdlog s @ fan_out_errors t ctx ds\<rparr>"
proof (induction ds arbitrary: s)
  case Nil
  show ?case by (simp add: fan_out_alerts_def fan_out_errors_def)
next
  case (Cons nd ds)
  show ?case
    by (cases "detect_pattern (snd nd) t ctx")
       (simp_all add: Cons.IH run_detector_cases fan_out_alerts_Cons fan_out_errors_Cons)
qed

lemma process_trade_internal_eq:
  "process_trade_internal t s =
     s\<lparr>context_cache := (context_cache s)(context_key t \<mapsto> update_context (context_cache s) t),
       alert_queue := alert_queue s @
          fan_out_alerts t (update_context (context_cache s) t) (enabled_detectors s),
       alerts_generated := alerts_generated s +
          of_nat (length (fan_out_alerts t (update_context (context_cache s) t) (enabled_detectors s))),
       spdlog := spdlog s @
          fan_out_errors t (update_context (context_cache s) t) (enabled_detectors s)\<rparr>"
  by (simp add: process_trade_internal_def Let_def fan_out_eq enabled_detectors_def)

lemma worker_iteration_empty:
  "q_items (trade_queue s) = [] \<Longrightarrow> worker_iteration ob s = s"
  by (simp add: worker_iteration_def queue_pop_def)

lemma worker_iteration_pop:
  assumes "q_items (trade_queue s) = slot # rest"
  shows "trades_processed (worker_iteration ob s) = trades_processed s + 1"
    and "processing_time_ns (worker_iteration ob s) = processing_time_ns s + fst ob"
    and "peak_counter (worker_iteration ob s) = update_peak (fst ob) (snd ob) (peak_counter s)"
    and "q_items (trade_queue (worker_iteration ob s)) = rest"
    and "pool_free (memory_pool (worker_iteration ob s)) = slot # pool_free (memory_pool s)"
    and "statistics (worker_iteration ob s) = statistics s"
    and "running (worker_iteration ob s) = running s"
  using assms
  by (simp_all add: worker_iteration_def queue_pop_def Let_def process_trade_internal_eq
        deallocate_def)

lemma worker_iteration_running: "running (worker_iteration ob s) = running s"
  by (cases "q_items (trade_queue s)")
     (simp_all add: worker_iteration_empty worker_iteration_pop(7))

lemma worker_iteration_queue:
  "q_items (trade_queue (worker_iteration ob s)) = tl (q_items (trade_queue s))"
  by (cases "q_items (trade_queue s)")
     (simp_all add: worker_iteration_empty worker_iteration_pop(4))

lemma worker_iteration_peak_mono: "peak_counter s \<le> peak_counter (worker_iteration ob s)"
  by (cases "q_items (trade_queue s)")
     (simp_all add: worker_iteration_empty worker_iteration_pop(3) update_peak_bounds)

lemma worker_iteration_peak_sample:
  "q_items (trade_queue s) \<noteq> [] \<Longrightarrow> fst ob \<le> peak_counter (worker_iteration ob s)"
  by (cases "q_items (trade_queue s)")
     (simp_all add: worker_iteration_pop(3) update_peak_bounds)

lemma worker_thread_func_peak:
  "worker_thread_func obs s = Some s' \<Longrightarrow>
     peak_counter s \<le> peak_counter s' \<and>
     (\<forall>d \<in> set (take (length (q_items (trade_queue s))) (map fst obs)). d \<le> peak_counter s')"
proof (induction obs arbitrary: s)
  case Nil
  then show ?case by (simp split: if_splits)
next
  case (Cons ob obs)
  show ?case
  proof (cases "running s \<or> q_items (trade_queue s) \<noteq> []")
    case False
    with Cons.prems show ?thesis by simp
  next
    case True
    let ?s1 = "worker_iteration ob s"
    from True Cons.prems have run: "worker_thread_func obs ?s1 = Some s'" by simp
    note ih = Cons.IH [OF run]
    have mono: "peak_counter s \<le> peak_counter s'"
      using worker_iteration_peak_mono [of s ob] ih by (meson order_trans)
    show ?thesis
    proof (cases "q_items (trade_queue s)")
      case Nil
      with mono show ?thesis by simp
    next
      case (Cons slot rest)
      then have "fst ob \<le> peak_counter ?s1"
        by (simp add: worker_iteration_peak_sample)
      with ih have first: "fst ob \<le> peak_counter s'" by (meson order_trans)
      have "q_items (trade_queue ?s1) = rest"
        using Cons by (simp add: worker_iteration_queue)
      with ih have "\<forall>d \<in> set (take (length rest) (map fst obs)). d \<le> peak_counter s'"
        by simp
      with first mono Cons show ?thesis by simp
    qed
  qed
qed

lemma fold_worker_iteration_peak:
  "peak_counter s \<le> peak_counter (fold worker_iteration obs s) \<and>
   (\<forall>d \<in> set (take (length (q_items (trade_queue s))) (map fst obs)).
      d \<le> peak_counter (fold worker_iteration obs s))"
proof (induction obs arbitrary: s)
  case Nil
  show ?case by simp
next
  case (Cons ob obs)
  let ?s1 = "worker_iteration ob s"
  let ?s' = "fold worker_iteration obs ?s1"
  note ih = Cons.IH [of ?s1]
  have mono: "peak_counter s \<le> peak_counter ?s'"
    using worker_iteration_peak_mono [of s ob] ih by (meson order_trans)
  show ?case
  proof (cases "q_items (trade_queue s)")
    case Nil
    with mono show ?thesis by simp
  next
    case (Cons slot rest)
    then have "fst ob \<le> peak_counter ?s1"
      by (simp add: worker_iteration_peak_sample)
    with ih have first: "fst ob \<le> peak_counter ?s'" by (meson order_trans)
    have "q_items (trade_queue ?s1) = rest"
      using Cons by (simp add: worker_iteration_queue)
    with ih have "\<forall>d \<in> set (take (length rest) (map fst obs)). d \<le> peak_counter ?s'"
      by simp
    with first mono Cons show ?thesis by simp
  qed
qed

lemma worker_thread_func_returns:
  "\<not> running s \<Longrightarrow> length (q_items (trade_queue s)) \<le> length obs \<Longrightarrow>
     \<exists>s'. worker_thread_func obs s = Some s'"
proof (induction obs arbitrary: s)
  case Nil
  then show ?case by simp
next
  case (Cons ob obs)
  have "\<not> running (worker_iteration ob s)"
    using Cons.prems(1) by (simp add: worker_iteration_running)
  moreover have "length (q_items (trade_queue (worker_iteration ob s))) \<le> length obs"
    using Cons.prems(2) by (simp add: worker_iteration_queue)
  ultimately have "\<exists>s'. worker_thread_func obs (worker_iteration ob s) = Some s'"
    by (rule Cons.IH)
  then show ?case by simp
qed

text \<open>
  C3 (amended). A trade is processed by updating its context and letting every enabled
  detector run on it, each on its own: the alerts of those that alert are queued and
  counted, and for each one that throws an error line naming it is logged. A throwing
  detector changes nothing but the log, and the alerts of the detectors before and after
  it are produced all the same. The worker then counts the trade in
  \<open>trades_processed\<close> and does not put it back on the queue. No counter records the
  failure; the statistics record is not touched.
\<close>

theorem C3_detector_error_isolation:
  "process_trade_internal t s =
     s\<lparr>context_cache := (context_cache s)(context_key t \<mapsto> update_context (context_cache s) t),
       alert_queue := alert_queue s @
          fan_out_alerts t (update_context (context_cache s) t) (enabled_detectors s),
       alerts_generated := alerts_generated s +
          of_nat (length (fan_out_alerts t (update_context (context_cache s) t) (enabled_detectors s))),
       spdlog := spdlog s @
          fan_out_errors t (update_context (context_cache s) t) (enabled_detectors s)\<rparr> \<and>
   (detect_pattern d t ctx = Throws what \<longrightarrow>
      run_detector t ctx s (name, d) =
        s\<lparr>spdlog := spdlog s @ [(LError, ''Error in pattern detector '' @ name @ '': '' @ what)]\<rparr> \<and>
      fan_out_alerts t ctx (ds @ (name, d) # ds') = fan_out_alerts t ctx ds @ fan_out_alerts t ctx ds') \<and>
   (q_items (trade_queue s) \<noteq> [] \<longrightarrow>
      trades_processed (worker_iteration ob s) = trades_processed s + 1 \<and>
      q_items (trade_queue (worker_iteration ob s)) = tl (q_items (trade_queue s)) \<and>
      statistics (worker_iteration ob s) = statistics s)"
proof (intro conjI impI)
  show "process_trade_internal t s =
     s\<lparr>context_cache := (context_cache s)(context_key t \<mapsto> update_context (context_cache s) t),
       alert_queue := alert_queue s @
          fan_out_alerts t (update_context (context_cache s) t) (enabled_detectors s),
       alerts_generated := alerts_generated s +
          of_nat (length (fan_out_alerts t (update_context (context_cache s) t) (enabled_detectors s))),
       spdlog := spdlog s @
          fan_out_errors t (update_context (context_cache s) t) (enabled_detectors s)\<rparr>"
    by (rule process_trade_internal_eq)
next
  assume thr: "detect_pattern d t ctx = Throws what"
  then show "run_detector t ctx s (name, d) =
        s\<lparr>spdlog := spdlog s @ [(LError, ''Error in pattern detector '' @ name @ '': '' @ what)]\<rparr>"
    by (simp add: run_detector_cases)
  show "fan_out_alerts t ctx (ds @ (name, d) # ds') = fan_out_alerts t ctx ds @ fan_out_alerts t ctx ds'"
    using thr by (simp add: fan_out_alerts_def)
next
  assume ne: "q_items (trade_queue s) \<noteq> []"
  then obtain slot rest where q: "q_items (trade_queue s) = slot # rest"
    by (cases "q_items (trade_queue s)") auto
  show "trades_processed (worker_iteration ob s) = trades_processed s + 1"
    by (rule worker_iteration_pop(1) [OF q])
  show "q_items (trade_queue (worker_iteration ob s)) = tl (q_items (trade_queue s))"
    by (rule worker_iteration_queue)
  show "statistics (worker_iteration ob s) = statistics s"
    by (rule worker_iteration_pop(6) [OF q])
qed

text \<open>
  The scenario: with the always-throwing and the always-alerting detector, five trades
  give five alerts, five processed trades and five error lines for \<open>throw_detector\<close>.
\<close>

lemma s6_run:
  "map_option alerts_generated (s6_result throw_detector) = Some 5"
  "map_option trades_processed (s6_result throw_detector) = Some 5"
  "map_option spdlog (s6_result throw_detector) =
     Some (replicate 5 (LError, ''Error in pattern detector throw_detector: boom''))"
  "map_option (\<lambda>s. q_items (trade_queue s)) (s6_result throw_detector) = Some []"
  "q_items (trade_queue (s6_engine throw_detector)) = [0, 1, 2, 3, 4]"
  "trades_processed (s6_engine throw_detector) = 0"
  by code_simp+

theorem C3_detector_error_isolation_witness:
  "q_items (trade_queue (s6_engine throw_detector)) \<noteq> [] \<and>
   trades_processed (worker_iteration (10, []) (s6_engine throw_detector)) = 1 \<and>
   q_items (trade_queue (worker_iteration (10, []) (s6_engine throw_detector))) = [1, 2, 3, 4] \<and>
   map_option alerts_generated (s6_result throw_detector) = Some 5 \<and>
   map_option trades_processed (s6_result throw_detector) = Some 5 \<and>
   map_option spdlog (s6_result throw_detector) =
     Some (replicate 5 (LError, ''Error in pattern detector throw_detector: boom''))"
proof -
  have ne: "q_items (trade_queue (s6_engine throw_detector)) \<noteq> []"
    by (simp add: s6_run)
  from C3_detector_error_isolation [of _ "s6_engine throw_detector" _ _ _ _ _ _ "(10, [])"] ne
  have "trades_processed (worker_iteration (10, []) (s6_engine throw_detector)) = 1"
    and "q_items (trade_queue (worker_iteration (10, []) (s6_engine throw_detector))) = [1, 2, 3, 4]"
    by (simp_all add: s6_run)
  with ne s6_run(1,2,3) show ?thesis by (intro conjI)
qed

text \<open>
  The claim as stated asks for a per-detector error counter that reads 5 here. The engine
  has none: after the same five trades all its counters are the same whether the first
  detector throws every time or quietly returns nothing.
\<close>

theorem C3_detector_errors_counterexample:
  "map_option engine_counters (s6_result throw_detector) = Some (5, 5, 150, 50, default_stats) \<and>
   map_option engine_counters (s6_result null_detector) = Some (5, 5, 150, 50, default_stats)"
  by code_simp

text \<open>
  C6. The peak counter is a running maximum. One iteration of the worker never lowers
  it and, when a trade was popped, leaves it at least as large as the measured duration,
  whatever other workers write during the compare-and-swap loop and however often the
  exchange fails. After any sequence of iterations, and so when the worker loop returns,
  the counter is not below its initial value and not below any duration measured for a
  trade processed in that sequence (the durations of the iterations that found a trade
  in the queue).
\<close>

theorem C6_peak_running_maximum:
  "peak_counter s \<le> peak_counter (worker_iteration ob s) \<and>
   (q_items (trade_queue s) \<noteq> [] \<longrightarrow> fst ob \<le> peak_counter (worker_iteration ob s)) \<and>
   peak_counter s \<le> peak_counter (fold worker_iteration obs s) \<and>
   (\<forall>d \<in> set (take (length (q_items (trade_queue s))) (map fst obs)).
      d \<le> peak_counter (fold worker_iteration obs s)) \<and>
   (worker_thread_func obs s = Some s' \<longrightarrow>
      peak_counter s \<le> peak_counter s' \<and>
      (\<forall>d \<in> set (take (length (q_items (trade_queue s))) (map fst obs)). d \<le> peak_counter s'))"
  using worker_iteration_peak_mono [of s ob] worker_iteration_peak_sample [of s ob]
    worker_thread_func_peak [of obs s s'] fold_worker_iteration_peak [of s obs]
  by blast

lemma peak_engine_run:
  "map_option peak_counter (worker_thread_func peak_obs peak_engine) = Some 9"
  "length (q_items (trade_queue peak_engine)) = 3"
  "map fst peak_obs = [5, 9, 3]"
  by code_simp+

theorem C6_peak_running_maximum_witness:
  "map_option peak_counter (worker_thread_func peak_obs peak_engine) = Some 9 \<and>
   q_items (trade_queue peak_engine) \<noteq> [] \<and>
   take (length (q_items (trade_queue peak_engine))) (map fst peak_obs) = [5, 9, 3] \<and>
   peak_counter peak_engine \<le> 9"
proof -
  obtain s' where run: "worker_thread_func peak_obs peak_engine = Some s'"
    and peak: "peak_counter s' = 9"
    using peak_engine_run(1) by auto
  have obs: "take (length (q_items (trade_queue peak_engine))) (map fst peak_obs) = [5, 9, 3]"
    by (simp add: peak_engine_run)
  have ne: "q_items (trade_queue peak_engine) \<noteq> []"
    using peak_engine_run(2) by auto
  from C6_peak_running_maximum [of peak_engine _ peak_obs s'] run peak
  have "peak_counter peak_engine \<le> 9" by simp
  with peak_engine_run(1) obs ne show ?thesis by (intro conjI)
qed

subsection \<open>Submit under resource exhaustion\<close>

lemma process_trade_pool_exhausted:
  assumes "running s" and "fst (validate_trade_data now t)" and "pool_free (memory_pool s) = []"
  shows "process_trade now t s =
           (False, s\<lparr>spdlog := spdlog s @
                       [(LError, ''Memory pool exhausted, dropping trade: '' @ trade_id t)]\<rparr>)"
proof -
  have v: "validate_trade_data now t = (True, [])"
    using assms(2) by (auto simp: validate_trade_data_def split: if_splits)
  show ?thesis
    using assms(1,3) by (simp add: process_trade_def v allocate_def log_msg_def)
qed

lemma process_trade_queue_full:
  assumes "running s" and "fst (validate_trade_data now t)"
    and "pool_free (memory_pool s) = a # rest"
    and "q_capacity (trade_queue s) \<le> length (q_items (trade_queue s))"
  shows "process_trade now t s =
           (False, s\<lparr>memory_pool := (memory_pool s)\<lparr>pool_slots := (pool_slots (memory_pool s))(a := t)\<rparr>,
                     spdlog := spdlog s @
                       [(LWarn, ''Trade queue full, dropping trade: '' @ trade_id t)]\<rparr>)"
proof -
  have v: "validate_trade_data now t = (True, [])"
    using assms(2) by (auto simp: validate_trade_data_def split: if_splits)
  show ?thesis
    using assms(1,3,4)
    by (simp add: process_trade_def v allocate_def queue_push_def deallocate_def log_msg_def Let_def)
qed

text \<open>
  C4 (amended). When a valid trade is submitted to a running engine whose pool has no
  free slot or whose queue is full, \<^verbatim>\<open>process_trade\<close> returns \<open>False\<close>, logs the drop (an
  error for the pool, a warning for the queue) and changes no counter. The free list of
  the pool is afterwards what it was before: in the queue-full case the slot just
  allocated is given back. The queue is unchanged.
\<close>

theorem C4_resource_exhaustion:
  assumes "running s" and "spec_is_valid now t"
    and "pool_free (memory_pool s) = [] \<or>
         q_capacity (trade_queue s) \<le> length (q_items (trade_queue s))"
  shows "\<not> fst (process_trade now t s) \<and>
         engine_counters (snd (process_trade now t s)) = engine_counters s \<and>
         pool_free (memory_pool (snd (process_trade now t s))) = pool_free (memory_pool s) \<and>
         trade_queue (snd (process_trade now t s)) = trade_queue s \<and>
         spdlog (snd (process_trade now t s)) =
           spdlog s @
             [if pool_free (memory_pool s) = []
              then (LError, ''Memory pool exhausted, dropping trade: '' @ trade_id t)
              else (LWarn, ''Trade queue full, dropping trade: '' @ trade_id t)]"
proof -
  have v: "fst (validate_trade_data now t)"
    using assms(2) by (simp add: validate_trade_data_iff)
  show ?thesis
  proof (cases "pool_free (memory_pool s)")
    case Nil
    show ?thesis
      by (simp add: process_trade_pool_exhausted [OF assms(1) v Nil] Nil engine_counters_def)
  next
    case (Cons a rest)
    with assms(3) have full: "q_capacity (trade_queue s) \<le> length (q_items (trade_queue s))"
      by simp
    show ?thesis
      by (simp add: process_trade_queue_full [OF assms(1) v Cons full] Cons engine_counters_def)
  qed
qed

lemma queue_full_facts:
  "running queue_full_engine"
  "spec_is_valid 100 (sample_trade ''T2'' ''INST1'' ''ACC1'' 2)"
  "q_capacity (trade_queue queue_full_engine) = 1"
  "q_items (trade_queue queue_full_engine) = [0]"
  "pool_free (memory_pool queue_full_engine) = [1, 2, 3]"
  by code_simp+

theorem C4_resource_exhaustion_witness:
  "running queue_full_engine \<and>
   spec_is_valid 100 (sample_trade ''T2'' ''INST1'' ''ACC1'' 2) \<and>
   q_capacity (trade_queue queue_full_engine) \<le> length (q_items (trade_queue queue_full_engine)) \<and>
   \<not> fst (process_trade 100 (sample_trade ''T2'' ''INST1'' ''ACC1'' 2) queue_full_engine) \<and>
   pool_free (memory_pool (snd (process_trade 100 (sample_trade ''T2'' ''INST1'' ''ACC1'' 2)
                                  queue_full_engine))) = [1, 2, 3] \<and>
   spdlog (snd (process_trade 100 (sample_trade ''T2'' ''INST1'' ''ACC1'' 2) queue_full_engine)) =
     spdlog queue_full_engine @ [(LWarn, ''Trade queue full, dropping trade: T2'')]"
proof -
  have full: "pool_free (memory_pool queue_full_engine) = [] \<or>
      q_capacity (trade_queue queue_full_engine) \<le> length (q_items (trade_queue queue_full_engine))"
    by (simp add: queue_full_facts)
  have tid: "trade_id (sample_trade ''T2'' ''INST1'' ''ACC1'' 2) = ''T2''"
    by (simp add: sample_trade_def)
  from C4_resource_exhaustion [OF queue_full_facts(1) queue_full_facts(2) full]
  show ?thesis by (simp add: queue_full_facts tid)
qed

text \<open>
  The claim as stated asks for a counter of dropped submits to go up. With an exhausted
  pool the valid trade is refused and every counter of the engine is as before.
\<close>

theorem C4_submit_drops_counterexample:
  "running pool_empty_engine \<and>
   spec_is_valid 100 (sample_trade ''T2'' ''INST1'' ''ACC1'' 2) \<and>
   pool_free (memory_pool pool_empty_engine) = [] \<and>
   \<not> fst (process_trade 100 (sample_trade ''T2'' ''INST1'' ''ACC1'' 2) pool_empty_engine) \<and>
   engine_counters (snd (process_trade 100 (sample_trade ''T2'' ''INST1'' ''ACC1'' 2) pool_empty_engine)) =
     engine_counters pool_empty_engine"
  by code_simp

subsection \<open>The statistics snapshot\<close>

lemma get_statistics_avg:
  "avg_processing_time_ns (get_statistics now_hr now_sys s) = avg_processing_time_ns (statistics s)"
  "peak_processing_time_ns (get_statistics now_hr now_sys s) = peak_processing_time_ns (statistics s)"
  "total_trades_processed (get_statistics now_hr now_sys s) = trades_processed s"
  "total_alerts_generated (get_statistics now_hr now_sys s) = alerts_generated s"
  by (simp_all add: get_statistics_def Let_def)

text \<open>
  C5. After one trade processed in 100 ns the counters hold a total of 100 ns and one
  processed trade, so the average asked for is 100; the snapshot of \<^verbatim>\<open>get_statistics\<close>
  reports \<open>avg_processing_time_ns = 0\<close>. The snapshot copies the field from the stored
  statistics record, which nothing updates, while it does refresh the trade count.
\<close>

theorem C5_average_not_computed:
  "map_option trades_processed one_trade_done = Some 1 \<and>
   map_option processing_time_ns one_trade_done = Some 100 \<and>
   map_option (\<lambda>s. processing_time_ns s div max (trades_processed s) 1) one_trade_done = Some 100 \<and>
   map_option (\<lambda>s. avg_processing_time_ns (get_statistics 2000000000 2000000000 s)) one_trade_done = Some 0 \<and>
   map_option (\<lambda>s. total_trades_processed (get_statistics 2000000000 2000000000 s)) one_trade_done = Some 1"
  by code_simp

end
